theory Spec2Isabelle
  imports Complex_Main
begin

section \<open>Numbers\<close>

text \<open>
  The TypeScript sources compute with the type \<^verbatim>\<open>number\<close>. Finite values are modelled
  as exact reals (rounding and overflow of the binary representation are not modelled).
  Division is the one operation of the modelled code that can leave the finite values on
  finite operands, so its result lives in the type \<open>number\<close>, which adds the two
  infinities and the not-a-number value.
\<close>

datatype number = Num real | PosInfinity | NegInfinity | NaN

definition js_div :: "real \<Rightarrow> real \<Rightarrow> number" where
  "js_div a b =
     (if b = 0 then (if a = 0 then NaN else if 0 < a then PosInfinity else NegInfinity)
      else Num (a / b))"

text \<open>Multiplication of a \<open>number\<close> by a finite constant, and the two comparisons
  against a finite constant; every comparison with not-a-number is false.\<close>

fun js_times :: "number \<Rightarrow> real \<Rightarrow> number" where
  "js_times (Num x) c = Num (x * c)"
| "js_times PosInfinity c = (if 0 < c then PosInfinity else if c < 0 then NegInfinity else NaN)"
| "js_times NegInfinity c = (if 0 < c then NegInfinity else if c < 0 then PosInfinity else NaN)"
| "js_times NaN c = NaN"

fun js_gt :: "number \<Rightarrow> real \<Rightarrow> bool" where
  "js_gt (Num x) c = (c < x)"
| "js_gt PosInfinity c = True"
| "js_gt NegInfinity c = False"
| "js_gt NaN c = False"

fun js_lt :: "number \<Rightarrow> real \<Rightarrow> bool" where
  "js_lt (Num x) c = (x < c)"
| "js_lt PosInfinity c = False"
| "js_lt NegInfinity c = True"
| "js_lt NaN c = False"

section \<open>The runway forecast (cfo-dashboard.tsx)\<close>

text \<open>The field \<open>id\<close> of a role is \<open>role_id\<close> here, since \<open>id\<close> is the identity function
  of the logic.\<close>

record HeadcountRole =
  role_id :: string
  role :: string
  salary :: real
  startMonth :: real

record FinancialInputs =
  monthlySpend :: real
  oneTimeSpend :: real
  priceIncrease :: real

text \<open>The parameter of \<open>calculateForecast\<close> is a \<open>FinancialInputs\<close> with an optional
  \<open>headcount\<close> field.\<close>

record ForecastParams = FinancialInputs +
  headcount :: "HeadcountRole list option"

record InitialData =
  bankBalance :: real
  monthlyRevenue :: real
  monthlyCosts :: real

definition initialData :: InitialData where
  "initialData = \<lparr> bankBalance = 5000000, monthlyRevenue = 800000, monthlyCosts = 1200000 \<rparr>"

record ForecastResult =
  runway :: number
  burn :: real
  forecastData :: "real list"

text \<open>\<open>params.headcount || headcount\<close>: the list passed in the parameter when there is
  one (an array, even an empty one, is truthy), the component's own list otherwise.\<close>

definition localHeadcount :: "HeadcountRole list \<Rightarrow> ForecastParams \<Rightarrow> HeadcountRole list" where
  "localHeadcount hc params = (case headcount params of Some h \<Rightarrow> h | None \<Rightarrow> hc)"

text \<open>\<open>.reduce((sum, r) => sum + r.salary, 0)\<close>\<close>

definition reduce_salary :: "HeadcountRole list \<Rightarrow> real" where
  "reduce_salary rs = foldl (\<lambda>sum r. sum + salary r) 0 rs"

definition monthlyHeadcountCost :: "HeadcountRole list \<Rightarrow> nat \<Rightarrow> real" where
  "monthlyHeadcountCost lh month =
     reduce_salary (filter (\<lambda>r. startMonth r < real month) lh)"

definition monthlyBurn :: "InitialData \<Rightarrow> ForecastParams \<Rightarrow> HeadcountRole list \<Rightarrow> nat \<Rightarrow> real" where
  "monthlyBurn d params lh month =
     monthlyCosts d + monthlySpend params + monthlyHeadcountCost lh month
       - monthlyRevenue d * (1 + priceIncrease params / 100)"

text \<open>The \<open>for\<close> loop of \<open>calculateForecast\<close>, from the value \<open>month\<close> of its counter on:
  the state is the running \<open>currentBalance\<close> and the array \<open>forecast\<close>.\<close>

function forecast_loop ::
  "InitialData \<Rightarrow> ForecastParams \<Rightarrow> HeadcountRole list \<Rightarrow> nat \<Rightarrow> real \<Rightarrow> real list \<Rightarrow> real list"
where
  "forecast_loop d params lh month currentBalance forecast =
     (if month < 25 then
        (let currentBalance' = currentBalance - monthlyBurn d params lh month
         in forecast_loop d params lh (month + 1) currentBalance'
              (forecast @ [max 0 currentBalance']))
      else forecast)"
  by pat_completeness auto
termination
  by (relation "measure (\<lambda>(d, params, lh, month, currentBalance, forecast). 25 - month)") auto

declare forecast_loop.simps [simp del]

text \<open>\<open>calculateForecast\<close> closes over the constant \<open>initialData\<close> and the component's
  \<open>headcount\<close> state; both are parameters here (\<open>d\<close> and \<open>hc\<close>).\<close>

definition calculateForecast ::
  "InitialData \<Rightarrow> HeadcountRole list \<Rightarrow> ForecastParams \<Rightarrow> ForecastResult"
where
  "calculateForecast d hc params =
     (let lh = localHeadcount hc params;
          currentBalance = bankBalance d - oneTimeSpend params;
          forecast = forecast_loop d params lh 1 currentBalance [currentBalance];
          firstMonthHeadcount = reduce_salary lh;
          displayBurn = monthlyCosts d + monthlySpend params + firstMonthHeadcount
                          - monthlyRevenue d * (1 + priceIncrease params / 100);
          displayRunway = (if 0 < displayBurn
                           then js_div (bankBalance d - oneTimeSpend params) displayBurn
                           else PosInfinity)
      in \<lparr> runway = displayRunway, burn = displayBurn, forecastData = forecast \<rparr>)"

text \<open>The recurrence as the specification words it: the unclamped balance starts at
  \<open>bankBalance - oneTimeSpend\<close> and every month subtracts that month's burn, which counts
  the salaries of the roles whose start month is strictly before the month.\<close>

definition spec_monthlyBurn ::
  "InitialData \<Rightarrow> ForecastParams \<Rightarrow> HeadcountRole list \<Rightarrow> nat \<Rightarrow> real"
where
  "spec_monthlyBurn d params lh m =
     monthlyCosts d + monthlySpend params
       + (\<Sum>r\<leftarrow>filter (\<lambda>r. startMonth r < real m) lh. salary r)
       - monthlyRevenue d * (1 + priceIncrease params / 100)"

primrec spec_balance ::
  "InitialData \<Rightarrow> ForecastParams \<Rightarrow> HeadcountRole list \<Rightarrow> nat \<Rightarrow> real"
where
  "spec_balance d params lh 0 = bankBalance d - oneTimeSpend params"
| "spec_balance d params lh (Suc m) =
     spec_balance d params lh m - spec_monthlyBurn d params lh (Suc m)"

section \<open>Budget variance (budget-tracker.tsx)\<close>

text \<open>\<open>getVarianceColor\<close> of \<open>enhanced-features/budget-tracker.tsx\<close>. The red class marks
  an item over budget, the green class one under budget, the yellow class one on track.\<close>

definition getVarianceColor :: "real \<Rightarrow> real \<Rightarrow> string" where
  "getVarianceColor budgeted actual =
     (let variance = js_times (js_div (actual - budgeted) budgeted) 100
      in if js_gt variance 10 then ''text-red-500 dark:text-red-400''
         else if js_lt variance (- 10) then ''text-green-500 dark:text-green-400''
         else ''text-yellow-500 dark:text-yellow-400'')"

text \<open>\<open>getVarianceColor\<close> of the second budget tracker (\<open>unnamed/part_000\<close>): the same
  thresholds, other class names.\<close>

definition getVarianceColor_part_000 :: "real \<Rightarrow> real \<Rightarrow> string" where
  "getVarianceColor_part_000 budgeted actual =
     (let variance = js_times (js_div (actual - budgeted) budgeted) 100
      in if js_gt variance 10 then ''text-red-500''
         else if js_lt variance (- 10) then ''text-green-500''
         else ''text-yellow-500'')"

section \<open>Alerts (enhanced-features/alerts-notifications.tsx)\<close>

datatype AlertType = Warning | Critical | Info

datatype Metric = Runway | BurnRate | Revenue | CashBalance | Expenses

datatype Condition = Below | Above | Equals

text \<open>The fields \<open>id\<close> and \<open>type\<close> of an alert are \<open>alert_id\<close> and \<open>alert_type\<close> here.\<close>

record Alert =
  alert_id :: string
  title :: string
  description :: string
  alert_type :: AlertType
  threshold :: real
  currentValue :: real
  isActive :: bool
  createdAt :: string
  metric :: Metric
  condition :: Condition
  emailNotifications :: bool
  pushNotifications :: bool

text \<open>The initial value of the component's \<open>alerts\<close> state.\<close>

definition initialAlerts :: "Alert list" where
  "initialAlerts =
     [\<lparr> alert_id = ''1'', title = ''Critical Cash Runway'',
        description = ''Cash runway below 3 months - immediate action required'',
        alert_type = Critical, threshold = 3, currentValue = 2.1, isActive = True,
        createdAt = ''2024-01-15'', metric = Runway, condition = Below,
        emailNotifications = True, pushNotifications = True \<rparr>,
      \<lparr> alert_id = ''2'', title = ''High Burn Rate Alert'',
        description = ''Monthly burn rate exceeds $50K threshold'',
        alert_type = Warning, threshold = 50000, currentValue = 62000, isActive = True,
        createdAt = ''2024-01-14'', metric = BurnRate, condition = Above,
        emailNotifications = True, pushNotifications = False \<rparr>,
      \<lparr> alert_id = ''3'', title = ''Revenue Milestone'',
        description = ''Celebrate when monthly revenue exceeds $100K target'',
        alert_type = Info, threshold = 100000, currentValue = 125000, isActive = False,
        createdAt = ''2024-01-10'', metric = Revenue, condition = Above,
        emailNotifications = False, pushNotifications = True \<rparr>]"

text \<open>The test \<open>thresholdCrossed\<close> of the interval callback, for the alert before the
  tick and its new value.\<close>

definition thresholdCrossed :: "Alert \<Rightarrow> real \<Rightarrow> bool" where
  "thresholdCrossed alert newValue =
     ((condition alert = Below \<and> newValue < threshold alert
         \<and> threshold alert \<le> currentValue alert)
      \<or> (condition alert = Above \<and> threshold alert < newValue
         \<and> currentValue alert \<le> threshold alert))"

text \<open>One alert in one tick. \<open>random\<close> is the value \<open>Math.random()\<close> returned for it. The
  effect is the list of calls of \<open>showNotification\<close>, each with its title and description.\<close>

definition tickAlert :: "real \<Rightarrow> Alert \<Rightarrow> (string \<times> string) list \<times> Alert" where
  "tickAlert random alert =
     (let variation = (random - 0.5) * 0.1;
          newValue = currentValue alert * (1 + variation)
      in if thresholdCrossed alert newValue \<and> \<not> isActive alert
         then ((if pushNotifications alert then [(title alert, description alert)] else []),
               alert\<lparr>currentValue := newValue, isActive := True\<rparr>)
         else ([], alert\<lparr>currentValue := newValue\<rparr>))"

text \<open>The tick maps over the alerts in order; \<open>rnd i\<close> is the random value drawn for the
  alert at position \<open>i\<close>.\<close>

fun tick_from ::
  "(nat \<Rightarrow> real) \<Rightarrow> nat \<Rightarrow> Alert list \<Rightarrow> (string \<times> string) list \<times> Alert list"
where
  "tick_from rnd i [] = ([], [])"
| "tick_from rnd i (alert # alerts) =
     (let (n, alert') = tickAlert (rnd i) alert;
          (ns, alerts') = tick_from rnd (Suc i) alerts
      in (n @ ns, alert' # alerts'))"

definition tick :: "(nat \<Rightarrow> real) \<Rightarrow> Alert list \<Rightarrow> (string \<times> string) list \<times> Alert list" where
  "tick rnd alerts = tick_from rnd 0 alerts"

text \<open>The form behind \<open>addAlert\<close>; its threshold is the text of the input field. Its
  fields carry the prefix \<open>new_\<close>, to keep them apart from the fields of an alert.\<close>

record NewAlert =
  new_title :: string
  new_description :: string
  new_type :: AlertType
  new_threshold :: string
  new_metric :: Metric
  new_condition :: Condition
  new_emailNotifications :: bool
  new_pushNotifications :: bool

text \<open>The initial value of the form, which is also what \<open>addAlert\<close> resets it to.\<close>

definition initialNewAlert :: NewAlert where
  "initialNewAlert =
     \<lparr> new_title = [], new_description = [], new_type = Warning, new_threshold = [],
       new_metric = Runway, new_condition = Below, new_emailNotifications = True,
       new_pushNotifications = False \<rparr>"

text \<open>\<open>addAlert\<close>. The clock readings \<open>now\<close> (\<open>Date.now().toString()\<close>) and \<open>today\<close> (the
  date part of the ISO time) and the library function \<open>parseFloat\<close> are parameters. The
  result is the new list of alerts and the new content of the form.\<close>

definition addAlert ::
  "string \<Rightarrow> string \<Rightarrow> (string \<Rightarrow> real) \<Rightarrow> Alert list \<Rightarrow> NewAlert \<Rightarrow> Alert list \<times> NewAlert"
where
  "addAlert now today parseFloat alerts newAlert =
     (if new_title newAlert \<noteq> [] \<and> new_description newAlert \<noteq> []
         \<and> new_threshold newAlert \<noteq> []
      then
        (alerts @
           [\<lparr> alert_id = now,
              title = new_title newAlert,
              description = new_description newAlert,
              alert_type = new_type newAlert,
              threshold = parseFloat (new_threshold newAlert),
              currentValue = 0,
              isActive = True,
              createdAt = today,
              metric = new_metric newAlert,
              condition = new_condition newAlert,
              emailNotifications = new_emailNotifications newAlert,
              pushNotifications = new_pushNotifications newAlert \<rparr>],
         \<lparr> new_title = [], new_description = [], new_type = Warning, new_threshold = [],
           new_metric = Runway, new_condition = Below, new_emailNotifications = True,
           new_pushNotifications = False \<rparr>)
      else (alerts, newAlert))"

section \<open>Facts about the salary sums\<close>

lemma foldl_salary_acc:
  "foldl (\<lambda>sum r. sum + salary r) a rs = a + sum_list (map salary rs)"
  by (induction rs arbitrary: a) simp_all

lemma reduce_salary_sum_list: "reduce_salary rs = sum_list (map salary rs)"
  by (simp add: reduce_salary_def foldl_salary_acc)

lemma monthlyBurn_spec: "monthlyBurn d params lh m = spec_monthlyBurn d params lh m"
  by (simp add: monthlyBurn_def spec_monthlyBurn_def monthlyHeadcountCost_def
      reduce_salary_sum_list)

section \<open>The loop of the forecast\<close>

text \<open>What the loop appends, from any state: one clamped balance per remaining month.\<close>

lemma forecast_loop_unfold:
  "forecast_loop d params lh month cb f =
     f @ map (\<lambda>m. max 0 (cb - (\<Sum>j = month..m. monthlyBurn d params lh j))) [month..<25]"
proof (induction d params lh month cb f rule: forecast_loop.induct)
  case (1 d params lh month cb f)
  show ?case
  proof (cases "month < 25")
    case False
    then show ?thesis by (simp add: forecast_loop.simps)
  next
    case True
    let ?b = "monthlyBurn d params lh"
    have IH: "forecast_loop d params lh (month + 1) (cb - ?b month) (f @ [max 0 (cb - ?b month)]) =
        (f @ [max 0 (cb - ?b month)]) @
          map (\<lambda>m. max 0 (cb - ?b month - (\<Sum>j = month + 1..m. ?b j))) [month + 1..<25]"
      using "1.IH" [OF True refl] by simp
    have tl: "map (\<lambda>m. max 0 (cb - ?b month - (\<Sum>j = month + 1..m. ?b j))) [month + 1..<25] =
              map (\<lambda>m. max 0 (cb - (\<Sum>j = month..m. ?b j))) [month + 1..<25]"
    proof (rule map_cong [OF refl])
      fix m assume "m \<in> set [month + 1..<25]"
      then have "month \<le> m" by simp
      then have "(\<Sum>j = month..m. ?b j) = ?b month + (\<Sum>j = month + 1..m. ?b j)"
        by (simp add: sum.atLeast_Suc_atMost)
      then show "max 0 (cb - ?b month - (\<Sum>j = month + 1..m. ?b j)) =
                 max 0 (cb - (\<Sum>j = month..m. ?b j))"
        by (simp add: algebra_simps)
    qed
    have hd: "[month..<25] = month # [month + 1..<25]"
      using True by (simp add: upt_conv_Cons)
    have "forecast_loop d params lh month cb f =
          forecast_loop d params lh (month + 1) (cb - ?b month) (f @ [max 0 (cb - ?b month)])"
      using True by (subst forecast_loop.simps) (simp add: Let_def)
    also have "\<dots> = (f @ [max 0 (cb - ?b month)]) @
          map (\<lambda>m. max 0 (cb - (\<Sum>j = month..m. ?b j))) [month + 1..<25]"
      by (simp only: IH tl)
    also have "\<dots> = f @ map (\<lambda>m. max 0 (cb - (\<Sum>j = month..m. ?b j))) [month..<25]"
      by (subst hd) simp
    finally show ?thesis .
  qed
qed

lemma spec_balance_sum:
  "spec_balance d params lh m =
     bankBalance d - oneTimeSpend params - (\<Sum>j = 1..m. monthlyBurn d params lh j)"
  by (induction m) (simp_all add: monthlyBurn_spec)

lemma forecastData_unfold:
  "forecastData (calculateForecast d hc params) =
     (bankBalance d - oneTimeSpend params) #
       map (\<lambda>m. max 0 (spec_balance d params (localHeadcount hc params) m)) [1..<25]"
  by (simp add: calculateForecast_def Let_def forecast_loop_unfold spec_balance_sum)

lemma forecastData_length: "length (forecastData (calculateForecast d hc params)) = 25"
  by (simp add: forecastData_unfold)

lemma forecastData_month_0:
  "forecastData (calculateForecast d hc params) ! 0 = bankBalance d - oneTimeSpend params"
  by (simp add: forecastData_unfold)

lemma forecastData_nth:
  assumes "1 \<le> m" "m \<le> 24"
  shows "forecastData (calculateForecast d hc params) ! m =
         max 0 (spec_balance d params (localHeadcount hc params) m)"
proof -
  obtain k where k: "m = Suc k" using assms(1) by (cases m) auto
  have "k < 24" using assms(2) k by simp
  then have "[1..<25] ! k = 1 + k" by (simp del: upt_Suc)
  then show ?thesis using \<open>k < 24\<close> by (simp add: forecastData_unfold k del: upt_Suc)
qed

lemma forecastData_nonneg_from_month_1:
  assumes "1 \<le> m" "m \<le> 24"
  shows "0 \<le> forecastData (calculateForecast d hc params) ! m"
  by (simp add: forecastData_nth [OF assms])

section \<open>The forecast series\<close>

text \<open>
  Claim C1. For every month \<open>m\<close> from 1 to 24, entry \<open>m\<close> of \<open>forecastData\<close> is the maximum
  of 0 and the unclamped balance of the recurrence: the balance starts at
  \<open>bankBalance - oneTimeSpend\<close> and month \<open>m\<close> subtracts the costs plus the monthly spend
  plus the salaries of the roles with \<open>startMonth < m\<close> minus the scaled revenue.
\<close>

theorem forecastData_recurrence:
  "1 \<le> m \<Longrightarrow> m \<le> 24 \<Longrightarrow>
     forecastData (calculateForecast d hc params) ! m =
       max 0 (spec_balance d params (localHeadcount hc params) m)"
  by (rule forecastData_nth)

theorem forecastData_recurrence_witness:
  "(1::nat) \<le> 4 \<and> (4::nat) \<le> 24 \<and>
   forecastData (calculateForecast initialData
      [\<lparr> role_id = ''role-1'', role = ''engineer'', salary = 100000, startMonth = 3 \<rparr>]
      \<lparr> monthlySpend = 0, oneTimeSpend = 0, priceIncrease = 0, headcount = None \<rparr>) ! 4 = 3300000"
  using forecastData_recurrence [of 4 initialData
      "[\<lparr> role_id = ''role-1'', role = ''engineer'', salary = 100000, startMonth = 3 \<rparr>]"
      "\<lparr> monthlySpend = 0, oneTimeSpend = 0, priceIncrease = 0, headcount = None \<rparr>"]
  by (simp add: eval_nat_numeral spec_monthlyBurn_def initialData_def localHeadcount_def)

text \<open>
  Claim C2. The claim is that the first entry of \<open>forecastData\<close> is
  \<open>max 0 (bankBalance - oneTimeSpend)\<close>, so never negative. The code stores the initial
  balance as it is and floors only the entries the loop appends: with a one-time spend of
  6000000 on the balance of 5000000 the first entry is -1000000, where the claim gives 0.
\<close>

theorem month_0_not_floored:
  "forecastData (calculateForecast initialData []
      \<lparr> monthlySpend = 0, oneTimeSpend = 6000000, priceIncrease = 0, headcount = None \<rparr>) ! 0
     = - 1000000
   \<and> max 0 (bankBalance initialData - 6000000) = 0"
  by (simp add: forecastData_month_0 initialData_def)

text \<open>
  Claim C3. The claim is that \<open>forecastData\<close> has 25 entries, each at least 0. The length
  is 25 (\<open>forecastData_length\<close>) and the entries of the months 1 to 24 are at least 0
  (\<open>forecastData_nonneg_from_month_1\<close>), but the entry of month 0 is not floored: with a
  one-time spend of 5000001 the series has 25 entries and its first entry is negative.
\<close>

theorem month_0_entry_negative:
  "length (forecastData (calculateForecast initialData []
      \<lparr> monthlySpend = 0, oneTimeSpend = 5000001, priceIncrease = 0, headcount = Some [] \<rparr>)) = 25
   \<and> forecastData (calculateForecast initialData []
      \<lparr> monthlySpend = 0, oneTimeSpend = 5000001, priceIncrease = 0, headcount = Some [] \<rparr>) ! 0 < 0"
  by (simp add: forecastData_length forecastData_month_0 initialData_def)

section \<open>Start months\<close>

lemma monthlyHeadcountCost_insert:
  "monthlyHeadcountCost (xs @ r # ys) m =
     monthlyHeadcountCost (xs @ ys) m + (if startMonth r < real m then salary r else 0)"
  by (simp add: monthlyHeadcountCost_def reduce_salary_sum_list)

lemma monthlyBurn_insert:
  "monthlyBurn d params (xs @ r # ys) m =
     monthlyBurn d params (xs @ ys) m + (if startMonth r < real m then salary r else 0)"
  by (simp add: monthlyBurn_def monthlyHeadcountCost_insert)

lemma spec_balance_insert_before:
  "real m \<le> startMonth r \<Longrightarrow>
     spec_balance d params (xs @ r # ys) m = spec_balance d params (xs @ ys) m"
proof (induction m)
  case 0
  show ?case by simp
next
  case (Suc m)
  then show ?case
    using monthlyBurn_insert [of d params xs r ys "Suc m"]
    by (simp add: monthlyBurn_spec)
qed

lemma spec_balance_insert_at:
  assumes "startMonth r = real m"
  shows "spec_balance d params (xs @ r # ys) (Suc m) =
         spec_balance d params (xs @ ys) (Suc m) - salary r"
proof -
  have "spec_balance d params (xs @ r # ys) m = spec_balance d params (xs @ ys) m"
    using assms by (simp add: spec_balance_insert_before)
  moreover have "monthlyBurn d params (xs @ r # ys) (Suc m) =
                 monthlyBurn d params (xs @ ys) (Suc m) + salary r"
    using assms by (simp add: monthlyBurn_insert)
  ultimately show ?thesis by (simp add: monthlyBurn_spec [symmetric])
qed

text \<open>
  Claim C4. A role counts toward the burn of month \<open>m\<close> exactly when its start month is
  strictly less than \<open>m\<close>: putting a role \<open>r\<close> anywhere into the headcount list raises the
  burn of month \<open>m\<close> by its salary when \<open>startMonth r < m\<close> and leaves it unchanged
  otherwise. For a role with start month 3, the burn of month 3 and entry 3 of the series
  are the ones of the list without the role, while the burn of month 4 is higher by the
  salary and entry 4 is computed from the balance lowered by the salary.
\<close>

theorem startMonth_strictly_before:
  "monthlyBurn d params (xs @ r # ys) m =
     monthlyBurn d params (xs @ ys) m + (if startMonth r < real m then salary r else 0)
   \<and> (startMonth r = 3 \<longrightarrow>
        monthlyBurn d params (xs @ r # ys) 3 = monthlyBurn d params (xs @ ys) 3
      \<and> monthlyBurn d params (xs @ r # ys) 4 = monthlyBurn d params (xs @ ys) 4 + salary r
      \<and> forecastData (calculateForecast d hc (params\<lparr>headcount := Some (xs @ r # ys)\<rparr>)) ! 3
          = forecastData (calculateForecast d hc (params\<lparr>headcount := Some (xs @ ys)\<rparr>)) ! 3
      \<and> forecastData (calculateForecast d hc (params\<lparr>headcount := Some (xs @ r # ys)\<rparr>)) ! 4
          = max 0 (spec_balance d params (xs @ ys) 4 - salary r))"
proof -
  have A: "monthlyBurn d params (xs @ r # ys) m =
     monthlyBurn d params (xs @ ys) m + (if startMonth r < real m then salary r else 0)"
    by (rule monthlyBurn_insert)
  have pb: "\<And>l k. spec_balance d (params\<lparr>headcount := Some l\<rparr>) l k = spec_balance d params l k"
  proof -
    fix l k show "spec_balance d (params\<lparr>headcount := Some l\<rparr>) l k = spec_balance d params l k"
      by (induction k) (simp_all add: spec_monthlyBurn_def)
  qed
  have fd: "\<And>l k. 1 \<le> k \<Longrightarrow> k \<le> 24 \<Longrightarrow>
      forecastData (calculateForecast d hc (params\<lparr>headcount := Some l\<rparr>)) ! k
        = max 0 (spec_balance d params l k)"
    by (simp add: forecastData_nth localHeadcount_def pb)
  {
    assume s: "startMonth r = 3"
    have b3: "monthlyBurn d params (xs @ r # ys) 3 = monthlyBurn d params (xs @ ys) 3"
      using s by (simp add: monthlyBurn_insert)
    have b4: "monthlyBurn d params (xs @ r # ys) 4 = monthlyBurn d params (xs @ ys) 4 + salary r"
      using s by (simp add: monthlyBurn_insert)
    have e3: "spec_balance d params (xs @ r # ys) 3 = spec_balance d params (xs @ ys) 3"
      using s by (simp add: spec_balance_insert_before)
    have e4: "spec_balance d params (xs @ r # ys) 4 = spec_balance d params (xs @ ys) 4 - salary r"
      using spec_balance_insert_at [of r 3 d params xs ys] s by simp
    have "forecastData (calculateForecast d hc (params\<lparr>headcount := Some (xs @ r # ys)\<rparr>)) ! 3
          = forecastData (calculateForecast d hc (params\<lparr>headcount := Some (xs @ ys)\<rparr>)) ! 3"
      by (simp add: fd e3)
    moreover have "forecastData (calculateForecast d hc (params\<lparr>headcount := Some (xs @ r # ys)\<rparr>)) ! 4
          = max 0 (spec_balance d params (xs @ ys) 4 - salary r)"
      by (simp add: fd e4)
    ultimately have "monthlyBurn d params (xs @ r # ys) 3 = monthlyBurn d params (xs @ ys) 3
      \<and> monthlyBurn d params (xs @ r # ys) 4 = monthlyBurn d params (xs @ ys) 4 + salary r
      \<and> forecastData (calculateForecast d hc (params\<lparr>headcount := Some (xs @ r # ys)\<rparr>)) ! 3
          = forecastData (calculateForecast d hc (params\<lparr>headcount := Some (xs @ ys)\<rparr>)) ! 3
      \<and> forecastData (calculateForecast d hc (params\<lparr>headcount := Some (xs @ r # ys)\<rparr>)) ! 4
          = max 0 (spec_balance d params (xs @ ys) 4 - salary r)"
      using b3 b4 by simp
  }
  with A show ?thesis by blast
qed

theorem startMonth_strictly_before_witness:
  "startMonth \<lparr> role_id = ''role-1'', role = ''engineer'', salary = 100000, startMonth = 3 \<rparr> = 3
   \<and> monthlyBurn initialData
        \<lparr> monthlySpend = 0, oneTimeSpend = 0, priceIncrease = 0, headcount = None \<rparr>
        [\<lparr> role_id = ''role-1'', role = ''engineer'', salary = 100000, startMonth = 3 \<rparr>] 3 = 400000
   \<and> monthlyBurn initialData
        \<lparr> monthlySpend = 0, oneTimeSpend = 0, priceIncrease = 0, headcount = None \<rparr>
        [\<lparr> role_id = ''role-1'', role = ''engineer'', salary = 100000, startMonth = 3 \<rparr>] 4 = 500000
   \<and> forecastData (calculateForecast initialData []
        \<lparr> monthlySpend = 0, oneTimeSpend = 0, priceIncrease = 0, headcount =
           Some [\<lparr> role_id = ''role-1'', role = ''engineer'', salary = 100000, startMonth = 3 \<rparr>] \<rparr>) ! 4
       = 3300000"
  using startMonth_strictly_before [of initialData
      "\<lparr> monthlySpend = 0, oneTimeSpend = 0, priceIncrease = 0, headcount = None \<rparr>"
      "[]" "\<lparr> role_id = ''role-1'', role = ''engineer'', salary = 100000, startMonth = 3 \<rparr>"
      "[]" 4 "[]"]
  by (simp add: monthlyBurn_def monthlyHeadcountCost_def reduce_salary_def initialData_def
      eval_nat_numeral spec_monthlyBurn_def)

section \<open>The display burn\<close>

text \<open>
  Claim C5. The \<open>burn\<close> field of the result is the baseline costs plus the monthly spend
  plus the salaries of all roles of the headcount list, whatever their start month, minus
  the revenue scaled by the price increase.
\<close>

theorem burn_sums_all_roles:
  "burn (calculateForecast d hc params) =
     monthlyCosts d + monthlySpend params + sum_list (map salary (localHeadcount hc params))
       - monthlyRevenue d * (1 + priceIncrease params / 100)"
  by (simp add: calculateForecast_def Let_def reduce_salary_sum_list)

section \<open>The display runway\<close>

text \<open>
  Claim C6. The \<open>runway\<close> field is the quotient of \<open>bankBalance - oneTimeSpend\<close> by the
  burn when the burn is positive, and positive infinity when the burn is zero or
  negative. The division only runs on a positive divisor, so the result is never
  not-a-number. With no headcount and a scaled revenue above the costs plus the monthly
  spend, the runway is positive infinity.
\<close>

theorem runway_guarded:
  "runway (calculateForecast d hc params) =
     (if 0 < burn (calculateForecast d hc params)
      then Num ((bankBalance d - oneTimeSpend params) / burn (calculateForecast d hc params))
      else PosInfinity)
   \<and> runway (calculateForecast d hc params) \<noteq> NaN
   \<and> (localHeadcount hc params = []
        \<and> monthlyCosts d + monthlySpend params
            < monthlyRevenue d * (1 + priceIncrease params / 100)
      \<longrightarrow> runway (calculateForecast d hc params) = PosInfinity)"
  by (simp add: calculateForecast_def Let_def js_div_def reduce_salary_def)

theorem runway_guarded_witness:
  "localHeadcount [] \<lparr> monthlySpend = 0, oneTimeSpend = 0, priceIncrease = 100, headcount = None \<rparr> = []
   \<and> monthlyCosts initialData + 0 < monthlyRevenue initialData * (1 + 100 / 100)
   \<and> runway (calculateForecast initialData []
        \<lparr> monthlySpend = 0, oneTimeSpend = 0, priceIncrease = 100, headcount = None \<rparr>) = PosInfinity"
proof -
  let ?p = "\<lparr> monthlySpend = 0, oneTimeSpend = 0, priceIncrease = 100, headcount = None \<rparr>"
  have h1: "localHeadcount [] ?p = []"
    by (simp add: localHeadcount_def)
  have h2: "monthlyCosts initialData + monthlySpend ?p
              < monthlyRevenue initialData * (1 + priceIncrease ?p / 100)"
    by (simp add: initialData_def)
  have "runway (calculateForecast initialData [] ?p) = PosInfinity"
    using runway_guarded [of initialData "[]" ?p] h1 h2 by blast
  then show ?thesis using h1 h2 by simp
qed

text \<open>The example of the specification: the base case has a burn of 400000 and a runway
  of 12.5 months.\<close>

lemma base_case_runway:
  "runway (calculateForecast initialData []
        \<lparr> monthlySpend = 0, oneTimeSpend = 0, priceIncrease = 0, headcount = Some [] \<rparr>) = Num 12.5
   \<and> burn (calculateForecast initialData []
        \<lparr> monthlySpend = 0, oneTimeSpend = 0, priceIncrease = 0, headcount = Some [] \<rparr>) = 400000"
  by (simp add: calculateForecast_def Let_def js_div_def reduce_salary_def localHeadcount_def
      initialData_def)

section \<open>Monotone decrease of the base case\<close>

lemma spec_balance_linear:
  assumes "monthlySpend params = 0" "priceIncrease params = 0"
  shows "spec_balance d params [] m =
         bankBalance d - oneTimeSpend params - real m * (monthlyCosts d - monthlyRevenue d)"
  using assms by (induction m) (simp_all add: spec_monthlyBurn_def algebra_simps)

lemma forecastData_linear:
  assumes "monthlySpend params = 0" "oneTimeSpend params = 0" "priceIncrease params = 0"
    and "localHeadcount hc params = []" and "0 \<le> bankBalance d" and "k \<le> 24"
  shows "forecastData (calculateForecast d hc params) ! k =
         max 0 (bankBalance d - real k * (monthlyCosts d - monthlyRevenue d))"
proof (cases "k = 0")
  case True
  then show ?thesis using assms by (simp add: forecastData_month_0)
next
  case False
  then have "1 \<le> k" by simp
  then show ?thesis
    using assms by (simp add: forecastData_nth spec_balance_linear)
qed

text \<open>
  Claim C7. With no monthly spend, no one-time spend, no price increase and an empty
  headcount list, and costs above revenue, the series is non-increasing, and once an
  entry is 0 every later entry is 0. The bank balance of the baseline is a non-negative
  amount, as the component's constant is.
\<close>

theorem forecast_non_increasing:
  assumes "monthlySpend params = 0" "oneTimeSpend params = 0" "priceIncrease params = 0"
    and "localHeadcount hc params = []"
    and "monthlyRevenue d < monthlyCosts d"
    and "0 \<le> bankBalance d"
  shows "(\<forall>i j. i \<le> j \<and> j \<le> 24 \<longrightarrow>
            forecastData (calculateForecast d hc params) ! j
              \<le> forecastData (calculateForecast d hc params) ! i)
       \<and> (\<forall>i j. i \<le> j \<and> j \<le> 24 \<and> forecastData (calculateForecast d hc params) ! i = 0 \<longrightarrow>
            forecastData (calculateForecast d hc params) ! j = 0)"
proof -
  let ?fd = "forecastData (calculateForecast d hc params)"
  let ?c = "monthlyCosts d - monthlyRevenue d"
  have c: "0 < ?c" using assms(5) by simp
  have lin: "\<And>k. k \<le> 24 \<Longrightarrow> ?fd ! k = max 0 (bankBalance d - real k * ?c)"
    using assms(1-4,6) by (rule forecastData_linear)
  have mono: "\<And>i j. i \<le> j \<Longrightarrow> real i * ?c \<le> real j * ?c"
    using c by (simp add: mult_right_mono)
  have dec: "\<And>i j. i \<le> j \<Longrightarrow> j \<le> 24 \<Longrightarrow> ?fd ! j \<le> ?fd ! i"
  proof -
    fix i j :: nat assume ij: "i \<le> j" and j: "j \<le> 24"
    then have i: "i \<le> 24" by simp
    show "?fd ! j \<le> ?fd ! i"
      using mono [OF ij] by (simp add: lin [OF i] lin [OF j] max_def)
  qed
  have nn: "\<And>k. k \<le> 24 \<Longrightarrow> 0 \<le> ?fd ! k"
    by (simp add: lin)
  have zero: "\<And>i j. i \<le> j \<Longrightarrow> j \<le> 24 \<Longrightarrow> ?fd ! i = 0 \<Longrightarrow> ?fd ! j = 0"
  proof -
    fix i j :: nat assume ij: "i \<le> j" and j: "j \<le> 24" and z: "?fd ! i = 0"
    have "?fd ! j \<le> 0" using dec [OF ij j] z by simp
    with nn [OF j] show "?fd ! j = 0" by simp
  qed
  show ?thesis using dec zero by blast
qed

theorem forecast_non_increasing_witness:
  "monthlySpend \<lparr> monthlySpend = 0, oneTimeSpend = 0, priceIncrease = 0, headcount = Some [] \<rparr> = 0
   \<and> oneTimeSpend \<lparr> monthlySpend = 0, oneTimeSpend = 0, priceIncrease = 0, headcount = Some [] \<rparr> = 0
   \<and> priceIncrease \<lparr> monthlySpend = 0, oneTimeSpend = 0, priceIncrease = 0, headcount = Some [] \<rparr> = 0
   \<and> localHeadcount [] \<lparr> monthlySpend = 0, oneTimeSpend = 0, priceIncrease = 0, headcount = Some [] \<rparr> = []
   \<and> monthlyRevenue initialData < monthlyCosts initialData
   \<and> 0 \<le> bankBalance initialData
   \<and> forecastData (calculateForecast initialData []
        \<lparr> monthlySpend = 0, oneTimeSpend = 0, priceIncrease = 0, headcount = Some [] \<rparr>) ! 13
      \<le> forecastData (calculateForecast initialData []
        \<lparr> monthlySpend = 0, oneTimeSpend = 0, priceIncrease = 0, headcount = Some [] \<rparr>) ! 12
   \<and> forecastData (calculateForecast initialData []
        \<lparr> monthlySpend = 0, oneTimeSpend = 0, priceIncrease = 0, headcount = Some [] \<rparr>) ! 13 = 0
   \<and> forecastData (calculateForecast initialData []
        \<lparr> monthlySpend = 0, oneTimeSpend = 0, priceIncrease = 0, headcount = Some [] \<rparr>) ! 24 = 0"
proof -
  let ?p = "\<lparr> monthlySpend = 0, oneTimeSpend = 0, priceIncrease = 0, headcount = Some [] \<rparr>"
  let ?fd = "forecastData (calculateForecast initialData [] ?p)"
  have h1: "monthlySpend ?p = 0" and h2: "oneTimeSpend ?p = 0" and h3: "priceIncrease ?p = 0"
    by simp_all
  have h4: "localHeadcount [] ?p = []" by (simp add: localHeadcount_def)
  have h5: "monthlyRevenue initialData < monthlyCosts initialData"
    by (simp add: initialData_def)
  have h6: "0 \<le> bankBalance initialData" by (simp add: initialData_def)
  note T = forecast_non_increasing [OF h1 h2 h3 h4 h5 h6]
  have z: "?fd ! 13 = 0"
    using forecastData_linear [OF h1 h2 h3 h4 h6, of 13] by (simp add: initialData_def)
  have a: "?fd ! 13 \<le> ?fd ! 12"
    by (rule T [THEN conjunct1, rule_format, of 12 13]) simp
  have b: "?fd ! 24 = 0"
    by (rule T [THEN conjunct2, rule_format, of 13 24]) (simp add: z)
  show ?thesis using h4 h5 h6 a z b by simp
qed

section \<open>Budget variance classes\<close>

text \<open>
  Claim C8. For a budgeted amount other than 0, with the variance
  \<open>(actual - budgeted) / budgeted * 100\<close>, the item is classified over budget (red)
  exactly when the variance is above 10, under budget (green) exactly when it is below
  -10, and on track (yellow) otherwise, the boundary values 10 and -10 included. Both
  budget trackers classify this way.
\<close>

theorem budget_variance_classes:
  assumes "budgeted \<noteq> 0"
  shows "(getVarianceColor budgeted actual = ''text-red-500 dark:text-red-400''
            \<longleftrightarrow> 10 < (actual - budgeted) / budgeted * 100)
       \<and> (getVarianceColor budgeted actual = ''text-green-500 dark:text-green-400''
            \<longleftrightarrow> (actual - budgeted) / budgeted * 100 < - 10)
       \<and> (getVarianceColor budgeted actual = ''text-yellow-500 dark:text-yellow-400''
            \<longleftrightarrow> - 10 \<le> (actual - budgeted) / budgeted * 100
                \<and> (actual - budgeted) / budgeted * 100 \<le> 10)
       \<and> (getVarianceColor_part_000 budgeted actual = ''text-red-500''
            \<longleftrightarrow> 10 < (actual - budgeted) / budgeted * 100)
       \<and> (getVarianceColor_part_000 budgeted actual = ''text-green-500''
            \<longleftrightarrow> (actual - budgeted) / budgeted * 100 < - 10)
       \<and> (getVarianceColor_part_000 budgeted actual = ''text-yellow-500''
            \<longleftrightarrow> - 10 \<le> (actual - budgeted) / budgeted * 100
                \<and> (actual - budgeted) / budgeted * 100 \<le> 10)"
proof -
  let ?v = "(actual - budgeted) / budgeted * 100"
  have v: "js_times (js_div (actual - budgeted) budgeted) 100 = Num ?v"
    using assms by (simp add: js_div_def)
  have a: "getVarianceColor budgeted actual =
      (if 10 < ?v then ''text-red-500 dark:text-red-400''
       else if ?v < - 10 then ''text-green-500 dark:text-green-400''
       else ''text-yellow-500 dark:text-yellow-400'')"
    by (simp only: getVarianceColor_def v Let_def js_gt.simps js_lt.simps)
  have b: "getVarianceColor_part_000 budgeted actual =
      (if 10 < ?v then ''text-red-500''
       else if ?v < - 10 then ''text-green-500''
       else ''text-yellow-500'')"
    by (simp only: getVarianceColor_part_000_def v Let_def js_gt.simps js_lt.simps)
  show ?thesis
    unfolding a b by (cases "10 < ?v"; cases "?v < - 10") simp_all
qed

theorem budget_variance_classes_witness:
  "(200000::real) \<noteq> 0
   \<and> getVarianceColor 200000 220000 = ''text-yellow-500 dark:text-yellow-400''
   \<and> getVarianceColor 200000 220001 = ''text-red-500 dark:text-red-400''
   \<and> getVarianceColor_part_000 200000 180000 = ''text-yellow-500''
   \<and> getVarianceColor_part_000 200000 179999 = ''text-green-500''"
  using budget_variance_classes [of 200000 220000] budget_variance_classes [of 200000 220001]
    budget_variance_classes [of 200000 180000] budget_variance_classes [of 200000 179999]
  by simp

section \<open>The simulation tick of the alerts\<close>

lemma tickAlert_currentValue:
  "currentValue (snd (tickAlert random alert)) =
     currentValue alert * (1 + (random - 0.5) * 0.1)"
  by (simp add: tickAlert_def Let_def)

lemma tickAlert_fires:
  assumes "fst (tickAlert random alert) \<noteq> []
           \<or> (\<not> isActive alert \<and> isActive (snd (tickAlert random alert)))"
  shows "thresholdCrossed alert (currentValue alert * (1 + (random - 0.5) * 0.1))
         \<and> \<not> isActive alert"
  using assms by (auto simp: tickAlert_def Let_def split: if_splits)

lemma tickAlert_notification:
  assumes "n \<in> set (fst (tickAlert random alert))"
  shows "n = (title alert, description alert)"
  using assms by (auto simp: tickAlert_def Let_def split: if_splits)

lemma tickAlert_quiet:
  assumes "\<not> thresholdCrossed alert (currentValue alert * (1 + (random - 0.5) * 0.1))"
  shows "tickAlert random alert =
         ([], alert\<lparr>currentValue := currentValue alert * (1 + (random - 0.5) * 0.1)\<rparr>)"
  using assms by (simp add: tickAlert_def Let_def)

lemma thresholdCrossed_iff:
  "thresholdCrossed alert nv \<longleftrightarrow>
     (condition alert = Below \<and> threshold alert \<le> currentValue alert \<and> nv < threshold alert)
     \<or> (condition alert = Above \<and> currentValue alert \<le> threshold alert \<and> threshold alert < nv)"
  by (auto simp: thresholdCrossed_def)

lemma tick_from_length: "length (snd (tick_from rnd i alerts)) = length alerts"
  by (induction alerts arbitrary: i) (simp_all add: split_def Let_def)

lemma tick_from_nth:
  "k < length alerts \<Longrightarrow>
     snd (tick_from rnd i alerts) ! k = snd (tickAlert (rnd (i + k)) (alerts ! k))"
proof (induction alerts arbitrary: i k)
  case Nil
  then show ?case by simp
next
  case (Cons a alerts)
  show ?case
  proof (cases k)
    case 0
    then show ?thesis by (simp add: split_def Let_def)
  next
    case (Suc k')
    then have "k' < length alerts" using Cons.prems by simp
    from Cons.IH [OF this, of "Suc i"] Suc show ?thesis
      by (simp add: split_def Let_def)
  qed
qed

lemma tick_from_notifications:
  "n \<in> set (fst (tick_from rnd i alerts)) \<Longrightarrow>
     \<exists>k<length alerts. n \<in> set (fst (tickAlert (rnd (i + k)) (alerts ! k)))"
proof (induction alerts arbitrary: i)
  case Nil
  then show ?case by simp
next
  case (Cons a alerts)
  from Cons.prems have "n \<in> set (fst (tickAlert (rnd i) a))
      \<or> n \<in> set (fst (tick_from rnd (Suc i) alerts))"
    by (simp add: split_def Let_def)
  then show ?case
  proof
    assume "n \<in> set (fst (tickAlert (rnd i) a))"
    then have "n \<in> set (fst (tickAlert (rnd (i + 0)) ((a # alerts) ! 0)))" by simp
    then show ?thesis by blast
  next
    assume "n \<in> set (fst (tick_from rnd (Suc i) alerts))"
    from Cons.IH [OF this] obtain k where k: "k < length alerts"
      and n: "n \<in> set (fst (tickAlert (rnd (Suc i + k)) (alerts ! k)))" by blast
    have "Suc k < length (a # alerts)" using k by simp
    moreover have "n \<in> set (fst (tickAlert (rnd (i + Suc k)) ((a # alerts) ! Suc k)))"
      using n by simp
    ultimately show ?thesis by blast
  qed
qed

lemma tick_nth:
  "k < length alerts \<Longrightarrow> snd (tick rnd alerts) ! k = snd (tickAlert (rnd k) (alerts ! k))"
  by (simp add: tick_def tick_from_nth)

lemma tick_notifications:
  "n \<in> set (fst (tick rnd alerts)) \<Longrightarrow>
     \<exists>k<length alerts. n \<in> set (fst (tickAlert (rnd k) (alerts ! k)))"
  using tick_from_notifications [of n rnd 0 alerts] by (simp add: tick_def)

text \<open>
  Claim C9. In a tick, an alert sends a notification or goes from inactive to active only
  when its value crosses the threshold in that tick: for the condition below, the old
  value is at least the threshold and the new value is less; for the condition above,
  the old value is at most the threshold and the new value is greater. When the condition
  already holds for the old value, the tick sends nothing for the alert and leaves its
  active flag as it is. Every notification of the tick carries the title and description
  of an inactive alert whose value crossed its threshold.
\<close>

theorem tick_fires_only_on_crossing:
  "(\<forall>k<length alerts.
      (fst (tickAlert (rnd k) (alerts ! k)) \<noteq> []
         \<or> (\<not> isActive (alerts ! k) \<and> isActive (snd (tick rnd alerts) ! k))
       \<longrightarrow> (condition (alerts ! k) = Below
              \<and> threshold (alerts ! k) \<le> currentValue (alerts ! k)
              \<and> currentValue (snd (tick rnd alerts) ! k) < threshold (alerts ! k))
           \<or> (condition (alerts ! k) = Above
              \<and> currentValue (alerts ! k) \<le> threshold (alerts ! k)
              \<and> threshold (alerts ! k) < currentValue (snd (tick rnd alerts) ! k)))
      \<and> ((condition (alerts ! k) = Below \<and> currentValue (alerts ! k) < threshold (alerts ! k))
           \<or> (condition (alerts ! k) = Above \<and> threshold (alerts ! k) < currentValue (alerts ! k))
         \<longrightarrow> fst (tickAlert (rnd k) (alerts ! k)) = []
             \<and> isActive (snd (tick rnd alerts) ! k) = isActive (alerts ! k)))
   \<and> (\<forall>n \<in> set (fst (tick rnd alerts)).
        \<exists>k<length alerts.
          n = (title (alerts ! k), description (alerts ! k))
          \<and> \<not> isActive (alerts ! k)
          \<and> ((condition (alerts ! k) = Below
                \<and> threshold (alerts ! k) \<le> currentValue (alerts ! k)
                \<and> currentValue (snd (tick rnd alerts) ! k) < threshold (alerts ! k))
             \<or> (condition (alerts ! k) = Above
                \<and> currentValue (alerts ! k) \<le> threshold (alerts ! k)
                \<and> threshold (alerts ! k) < currentValue (snd (tick rnd alerts) ! k))))"
proof (intro conjI allI impI ballI)
  fix k assume k: "k < length alerts"
  let ?a = "alerts ! k"
  let ?nv = "currentValue ?a * (1 + (rnd k - 0.5) * 0.1)"
  have nv: "currentValue (snd (tick rnd alerts) ! k) = ?nv"
    by (simp add: tick_nth [OF k] tickAlert_currentValue)
  {
    assume "fst (tickAlert (rnd k) ?a) \<noteq> []
         \<or> (\<not> isActive ?a \<and> isActive (snd (tick rnd alerts) ! k))"
    then have "thresholdCrossed ?a ?nv"
      using tickAlert_fires [of "rnd k" ?a] by (simp add: tick_nth [OF k])
    then show "(condition ?a = Below \<and> threshold ?a \<le> currentValue ?a
              \<and> currentValue (snd (tick rnd alerts) ! k) < threshold ?a)
           \<or> (condition ?a = Above \<and> currentValue ?a \<le> threshold ?a
              \<and> threshold ?a < currentValue (snd (tick rnd alerts) ! k))"
      by (simp only: nv thresholdCrossed_iff)
  }
  {
    assume "(condition ?a = Below \<and> currentValue ?a < threshold ?a)
           \<or> (condition ?a = Above \<and> threshold ?a < currentValue ?a)"
    then have "\<not> thresholdCrossed ?a ?nv"
      by (auto simp: thresholdCrossed_def)
    then have q: "tickAlert (rnd k) ?a = ([], ?a\<lparr>currentValue := ?nv\<rparr>)"
      by (rule tickAlert_quiet)
    show "fst (tickAlert (rnd k) ?a) = []" by (simp add: q)
    show "isActive (snd (tick rnd alerts) ! k) = isActive ?a"
      by (simp add: tick_nth [OF k] q)
  }
next
  fix n assume "n \<in> set (fst (tick rnd alerts))"
  then obtain k where k: "k < length alerts"
    and n: "n \<in> set (fst (tickAlert (rnd k) (alerts ! k)))"
    using tick_notifications by blast
  let ?a = "alerts ! k"
  let ?nv = "currentValue ?a * (1 + (rnd k - 0.5) * 0.1)"
  have nv: "currentValue (snd (tick rnd alerts) ! k) = ?nv"
    by (simp add: tick_nth [OF k] tickAlert_currentValue)
  have "fst (tickAlert (rnd k) ?a) \<noteq> []" using n by auto
  then have f: "thresholdCrossed ?a ?nv \<and> \<not> isActive ?a"
    using tickAlert_fires [of "rnd k" ?a] by simp
  have "n = (title ?a, description ?a)" using n by (rule tickAlert_notification)
  moreover have "(condition ?a = Below \<and> threshold ?a \<le> currentValue ?a
              \<and> currentValue (snd (tick rnd alerts) ! k) < threshold ?a)
           \<or> (condition ?a = Above \<and> currentValue ?a \<le> threshold ?a
              \<and> threshold ?a < currentValue (snd (tick rnd alerts) ! k))"
    using f by (simp only: nv thresholdCrossed_iff)
  ultimately show "\<exists>k<length alerts.
          n = (title (alerts ! k), description (alerts ! k))
          \<and> \<not> isActive (alerts ! k)
          \<and> ((condition (alerts ! k) = Below
                \<and> threshold (alerts ! k) \<le> currentValue (alerts ! k)
                \<and> currentValue (snd (tick rnd alerts) ! k) < threshold (alerts ! k))
             \<or> (condition (alerts ! k) = Above
                \<and> currentValue (alerts ! k) \<le> threshold (alerts ! k)
                \<and> threshold (alerts ! k) < currentValue (snd (tick rnd alerts) ! k)))"
    using k f by blast
qed

theorem tick_fires_only_on_crossing_witness:
  "(2::nat) < length (initialAlerts [2 := (initialAlerts ! 2)\<lparr>currentValue := 100000\<rparr>])
   \<and> fst (tickAlert 0.9 ((initialAlerts ! 2)\<lparr>currentValue := 100000\<rparr>))
        = [(''Revenue Milestone'', ''Celebrate when monthly revenue exceeds $100K target'')]
   \<and> condition ((initialAlerts ! 2)\<lparr>currentValue := 100000\<rparr>) = Above
   \<and> currentValue ((initialAlerts ! 2)\<lparr>currentValue := 100000\<rparr>) \<le> 100000
   \<and> threshold ((initialAlerts ! 2)\<lparr>currentValue := 100000\<rparr>) = 100000
   \<and> 100000 < currentValue (snd (tick (\<lambda>i. 0.9)
         (initialAlerts [2 := (initialAlerts ! 2)\<lparr>currentValue := 100000\<rparr>])) ! 2)
   \<and> condition (initialAlerts ! 0) = Below
   \<and> currentValue (initialAlerts ! 0) < threshold (initialAlerts ! 0)
   \<and> fst (tickAlert 0.9 (initialAlerts ! 0)) = []
   \<and> (''Revenue Milestone'', ''Celebrate when monthly revenue exceeds $100K target'')
        \<in> set (fst (tick (\<lambda>i. 0.9)
             (initialAlerts [2 := (initialAlerts ! 2)\<lparr>currentValue := 100000\<rparr>])))"
proof -
  let ?c = "(initialAlerts ! 2)\<lparr>currentValue := 100000\<rparr>"
  let ?as = "initialAlerts [2 := ?c]"
  note T = tick_fires_only_on_crossing [of ?as "\<lambda>i. 0.9"]
  have k0: "(0::nat) < length ?as" and k2: "(2::nat) < length ?as"
    by (simp_all add: initialAlerts_def)
  have a0: "?as ! 0 = initialAlerts ! 0" and a2: "?as ! 2 = ?c"
    by (simp_all add: initialAlerts_def)
  have fired: "fst (tickAlert 0.9 ?c)
        = [(''Revenue Milestone'', ''Celebrate when monthly revenue exceeds $100K target'')]"
    by (simp add: tickAlert_def thresholdCrossed_def initialAlerts_def Let_def)
  have c: "condition ?c = Above \<and> threshold ?c = 100000" by (simp add: initialAlerts_def)
  have crossing: "currentValue ?c \<le> 100000
      \<and> 100000 < currentValue (snd (tick (\<lambda>i. 0.9) ?as) ! 2)"
    using T [THEN conjunct1, rule_format, OF k2, THEN conjunct1, rule_format] fired c
    by (simp add: a2)
  have already: "condition (initialAlerts ! 0) = Below
      \<and> currentValue (initialAlerts ! 0) < threshold (initialAlerts ! 0)"
    by (simp add: initialAlerts_def)
  have quiet: "fst (tickAlert 0.9 (initialAlerts ! 0)) = []"
    using T [THEN conjunct1, rule_format, OF k0, THEN conjunct2, rule_format] already
    by (simp add: a0)
  have sent: "(''Revenue Milestone'', ''Celebrate when monthly revenue exceeds $100K target'')
        \<in> set (fst (tick (\<lambda>i. 0.9) ?as))"
    by (simp add: tick_def tickAlert_def thresholdCrossed_def initialAlerts_def Let_def
        eval_nat_numeral)
  show ?thesis using k2 fired c crossing already quiet sent by simp
qed

text \<open>
  Claim C10. For an alert with the condition equals the threshold-crossed test is false
  for every old and new value, so the tick sends no notification for it and only updates
  its current value. Yet \<open>addAlert\<close> accepts the condition equals: a filled-in form with
  that condition appends an alert that has it.
\<close>

theorem equals_never_fires:
  "(condition alert = Equals \<longrightarrow> \<not> thresholdCrossed alert newValue)
   \<and> (k < length alerts \<and> condition (alerts ! k) = Equals \<longrightarrow>
        fst (tickAlert (rnd k) (alerts ! k)) = []
        \<and> snd (tick rnd alerts) ! k =
            (alerts ! k)\<lparr>currentValue := currentValue (alerts ! k) * (1 + (rnd k - 0.5) * 0.1)\<rparr>)
   \<and> (new_title newAlert \<noteq> [] \<and> new_description newAlert \<noteq> [] \<and> new_threshold newAlert \<noteq> []
        \<and> new_condition newAlert = Equals \<longrightarrow>
        length (fst (addAlert now today parseFloat alerts newAlert)) = Suc (length alerts)
        \<and> condition (last (fst (addAlert now today parseFloat alerts newAlert))) = Equals)"
proof (intro conjI impI)
  assume "condition alert = Equals"
  then show "\<not> thresholdCrossed alert newValue" by (simp add: thresholdCrossed_def)
next
  assume h: "k < length alerts \<and> condition (alerts ! k) = Equals"
  then have "\<not> thresholdCrossed (alerts ! k)
               (currentValue (alerts ! k) * (1 + (rnd k - 0.5) * 0.1))"
    by (simp add: thresholdCrossed_def)
  then have q: "tickAlert (rnd k) (alerts ! k) =
      ([], (alerts ! k)\<lparr>currentValue := currentValue (alerts ! k) * (1 + (rnd k - 0.5) * 0.1)\<rparr>)"
    by (rule tickAlert_quiet)
  show "fst (tickAlert (rnd k) (alerts ! k)) = []" by (simp add: q)
  show "snd (tick rnd alerts) ! k =
      (alerts ! k)\<lparr>currentValue := currentValue (alerts ! k) * (1 + (rnd k - 0.5) * 0.1)\<rparr>"
    using h by (simp add: tick_nth q)
next
  assume h: "new_title newAlert \<noteq> [] \<and> new_description newAlert \<noteq> []
      \<and> new_threshold newAlert \<noteq> [] \<and> new_condition newAlert = Equals"
  then show "length (fst (addAlert now today parseFloat alerts newAlert)) = Suc (length alerts)"
    by (simp add: addAlert_def)
  from h show "condition (last (fst (addAlert now today parseFloat alerts newAlert))) = Equals"
    by (simp add: addAlert_def)
qed

theorem equals_never_fires_witness:
  "condition ((initialAlerts ! 2)\<lparr>condition := Equals, currentValue := 100000\<rparr>) = Equals
   \<and> \<not> thresholdCrossed ((initialAlerts ! 2)\<lparr>condition := Equals, currentValue := 100000\<rparr>) 100000
   \<and> (0::nat) < length [(initialAlerts ! 2)\<lparr>condition := Equals, currentValue := 100000\<rparr>]
   \<and> fst (tickAlert (1 / 2) ((initialAlerts ! 2)\<lparr>condition := Equals, currentValue := 100000\<rparr>)) = []
   \<and> snd (tick (\<lambda>i. 1 / 2) [(initialAlerts ! 2)\<lparr>condition := Equals, currentValue := 100000\<rparr>]) ! 0
        = (initialAlerts ! 2)\<lparr>condition := Equals, currentValue := 100000\<rparr>
   \<and> new_condition (initialNewAlert\<lparr>new_title := ''Revenue Target'',
         new_description := ''Monthly revenue equals the target'',
         new_threshold := ''100000'', new_condition := Equals\<rparr>) = Equals
   \<and> condition (last (fst (addAlert ''1705449600000'' ''2024-01-17'' (\<lambda>s. 100000)
         [(initialAlerts ! 2)\<lparr>condition := Equals, currentValue := 100000\<rparr>]
         (initialNewAlert\<lparr>new_title := ''Revenue Target'',
           new_description := ''Monthly revenue equals the target'',
           new_threshold := ''100000'', new_condition := Equals\<rparr>)))) = Equals"
proof -
  let ?e = "(initialAlerts ! 2)\<lparr>condition := Equals, currentValue := 100000\<rparr>"
  let ?form = "initialNewAlert\<lparr>new_title := ''Revenue Target'',
         new_description := ''Monthly revenue equals the target'',
         new_threshold := ''100000'', new_condition := Equals\<rparr>"
  note T = equals_never_fires [of ?e 100000 0 "[?e]" "\<lambda>i. 1 / 2"
      ?form "''1705449600000''" "''2024-01-17''" "\<lambda>s. 100000"]
  have c: "condition ?e = Equals" by simp
  have k: "(0::nat) < length [?e] \<and> condition ([?e] ! 0) = Equals" by simp
  have f: "new_title ?form \<noteq> [] \<and> new_description ?form \<noteq> []
      \<and> new_threshold ?form \<noteq> [] \<and> new_condition ?form = Equals"
    by simp
  have t1: "\<not> thresholdCrossed ?e 100000"
    using T [THEN conjunct1] c by blast
  have t2: "fst (tickAlert (1 / 2) ([?e] ! 0)) = []
        \<and> snd (tick (\<lambda>i. 1 / 2) [?e]) ! 0 =
            ([?e] ! 0)\<lparr>currentValue := currentValue ([?e] ! 0) * (1 + (1 / 2 - 0.5) * 0.1)\<rparr>"
    using T [THEN conjunct2, THEN conjunct1] k by blast
  have t3: "condition (last (fst (addAlert ''1705449600000'' ''2024-01-17'' (\<lambda>s. 100000)
         [?e] ?form))) = Equals"
    using T [THEN conjunct2, THEN conjunct2] f by blast
  have same: "?e\<lparr>currentValue := currentValue ?e * (1 + (1 / 2 - 0.5) * 0.1)\<rparr> = ?e"
    by simp
  show ?thesis using c t1 t2 t3 f same by simp
qed

end
